theory Spec2Isabelle
  imports Complex_Main
begin

section \<open>Exceptions\<close>

text \<open>
  The Python exceptions the modelled code can raise. \<open>RequestException\<close> stands for
  \<^verbatim>\<open>requests.RequestException\<close> and every subclass of it (\<^verbatim>\<open>ConnectionError\<close>,
  \<^verbatim>\<open>HTTPError\<close>, the explicit "Empty response"); the \<^verbatim>\<open>except\<close> clause of
  \<^verbatim>\<open>_update_page_content\<close> catches exactly this class. A raising call is the value
  \<open>Inl e\<close>, a returning call is \<open>Inr result\<close>.
\<close>

datatype error =
  AttributeError | IndexError | KeyError | TypeError | ValueError | RequestException

section \<open>session\_manager.py: the sliding-window rate limiter\<close>

text \<open>
  \<^verbatim>\<open>time.time()\<close> returns seconds as a float; timestamps are modelled as real numbers.
  The wall clock is an explicit value threaded through every call: a function that reads
  \<^verbatim>\<open>time.time()\<close> takes the current clock, one that sleeps returns the advanced clock.
\<close>

record session_manager =
  request_history :: "real list"
  max_requests_per_second :: int
  max_per :: real

text \<open>
  \<^verbatim>\<open>SessionManager.__init__(max_requests_per_timeframe=(15, 30))\<close>: stores the pair,
  starts with an empty history. It contains no check of its arguments and no
  \<^verbatim>\<open>raise\<close>, so the model always returns \<open>Inr\<close>.
\<close>

definition SessionManager_init :: "int \<times> real \<Rightarrow> error + session_manager" where
  "SessionManager_init max_requests_per_timeframe =
     Inr \<lparr>request_history = [],
          max_requests_per_second = fst max_requests_per_timeframe,
          max_per = snd max_requests_per_timeframe\<rparr>"

text \<open>\<^verbatim>\<open>add_request\<close>: appends \<^verbatim>\<open>time.time()\<close> to the history.\<close>

definition add_request :: "session_manager \<Rightarrow> real \<Rightarrow> session_manager" where
  "add_request sm now = sm\<lparr>request_history := request_history sm @ [now]\<rparr>"

text \<open>
  \<^verbatim>\<open>check_request_rate_limit\<close>. \<^verbatim>\<open>valid_requests[0]\<close> on an empty list raises
  \<^verbatim>\<open>IndexError\<close>; \<^verbatim>\<open>time.sleep\<close> of a negative length raises \<^verbatim>\<open>ValueError\<close>
  and otherwise advances the clock by the requested length (any longer sleep is
  indistinguishable, for the callers below, from a slower network exchange right after it).
  The result is the updated manager and the clock on return.
\<close>

definition check_request_rate_limit ::
    "session_manager \<Rightarrow> real \<Rightarrow> error + (session_manager \<times> real)" where
  "check_request_rate_limit sm now =
     (let current_time = now;
          window_start_time = current_time - max_per sm;
          valid_requests = filter (\<lambda>t. t > window_start_time) (request_history sm)
      in if int (length valid_requests) \<ge> max_requests_per_second sm then
           (case valid_requests of
              [] \<Rightarrow> Inl IndexError
            | v # _ \<Rightarrow>
                let time_to_wait = v + max_per sm - current_time
                in if time_to_wait < 0 then Inl ValueError
                   else Inr (sm\<lparr>request_history :=
                                filter (\<lambda>t. t > window_start_time + time_to_wait)
                                  (request_history sm)\<rparr>,
                             now + time_to_wait))
         else Inr (sm, now))"

section \<open>Documents\<close>

text \<open>
  A parsed page as BeautifulSoup holds it: a tree of tags and strings. A tag carries its
  name, the value of its multi-valued \<^verbatim>\<open>class\<close> attribute as a list (empty when the
  attribute is absent), its other attributes as name/value pairs, and its children. The
  \<^verbatim>\<open>BeautifulSoup\<close> object itself is the root tag, named \<^verbatim>\<open>[document]\<close>.
\<close>

datatype node =
    Tag string "string list" "(string \<times> string) list" "node list"
  | NavigableString string

fun descendants :: "node \<Rightarrow> node list" where
  "descendants (Tag n cs as ks) = concat (map (\<lambda>k. k # descendants k) ks)"
| "descendants (NavigableString s) = []"

text \<open>
  \<^verbatim>\<open>tag.find_all(name, {'class': classes})\<close> returns, in document order, the
  descendant tags with that name whose class list holds one of \<open>classes\<close>; an empty
  \<open>classes\<close> stands for a call without an attribute filter. \<^verbatim>\<open>find\<close> returns the
  first of them, or \<^verbatim>\<open>None\<close>.
\<close>

fun matches :: "string \<Rightarrow> string list \<Rightarrow> node \<Rightarrow> bool" where
  "matches name classes (Tag n cs as ks) =
     (n = name \<and> (classes = [] \<or> list_ex (\<lambda>c. c \<in> set cs) classes))"
| "matches name classes (NavigableString s) = False"

definition find_all :: "node \<Rightarrow> string \<Rightarrow> string list \<Rightarrow> node list" where
  "find_all t name classes = filter (matches name classes) (descendants t)"

definition find :: "node \<Rightarrow> string \<Rightarrow> string list \<Rightarrow> node option" where
  "find t name classes =
     (case find_all t name classes of [] \<Rightarrow> None | x # _ \<Rightarrow> Some x)"

section \<open>mixins.py: the cached fetch\<close>

text \<open>
  What \<^verbatim>\<open>session.get(BASE_URL, params=params)\<close> does: it raises a
  \<^verbatim>\<open>ConnectionError\<close>, or it returns a response with a status code whose content
  \<^verbatim>\<open>BeautifulSoup(page.content, "lxml")\<close> parses to a document. The exchange takes
  \<open>latency\<close> seconds of wall-clock time.
\<close>

datatype response = ConnectionFailed | Reply nat node

record exchange =
  answer :: response
  latency :: real

text \<open>
  The world outside the process: the wall clock and the list of requests that reached the
  network, oldest first.
\<close>

record 'p world =
  clock :: real
  sent :: "'p list"

text \<open>
  The attributes of a \<^verbatim>\<open>ScraperMixin\<close> instance other than the session manager, which
  is shared between instances and therefore passed separately. \<open>'p\<close> is the type of the
  request parameters (a dict, used only through \<^verbatim>\<open>!=\<close>).
\<close>

record 'p scraper_mixin =
  last_request :: "'p option"
  page_content :: "node option"
  update_interval :: real
  last_updated :: "real option"

definition ScraperMixin_init :: "real \<Rightarrow> 'p scraper_mixin" where
  "ScraperMixin_init interval =
     \<lparr>last_request = None, page_content = None,
      update_interval = interval, last_updated = None\<rparr>"

text \<open>\<^verbatim>\<open>Response.raise_for_status\<close> raises \<^verbatim>\<open>HTTPError\<close> for a 4xx or 5xx status.\<close>

definition raise_for_status :: "nat \<Rightarrow> error + unit" where
  "raise_for_status status =
     (if 400 \<le> status \<and> status < 600 then Inl RequestException else Inr ())"

text \<open>
  The body of the \<^verbatim>\<open>try\<close> block of \<^verbatim>\<open>_update_page_content\<close>, statement by
  statement. An exception leaves the state as the statements before it made it, so the
  state is returned beside the outcome: \<open>Some e\<close> when \<open>e\<close> was raised. The request
  is entered in \<open>sent\<close> when \<^verbatim>\<open>session.get\<close> is called, whatever its outcome; the clock
  moves during the sleep of the limiter and during the exchange, and the two readings of
  \<^verbatim>\<open>time.time()\<close> after the exchange (lines 70 and 71) see the same instant.
\<close>

type_synonym 'p fetch_state = "'p scraper_mixin \<times> session_manager \<times> 'p world"

definition update_try_block ::
    "exchange \<Rightarrow> 'p \<Rightarrow> 'p fetch_state \<Rightarrow> error option \<times> 'p fetch_state" where
  "update_try_block ex params st =
     (case st of (self, sm, w) \<Rightarrow>
        (case check_request_rate_limit sm (clock w) of
           Inl e \<Rightarrow> (Some e, (self, sm, w))
         | Inr (sm1, now1) \<Rightarrow>
             let w1 = w\<lparr>clock := now1 + latency ex, sent := sent w @ [params]\<rparr>
             in (case answer ex of
                   ConnectionFailed \<Rightarrow> (Some RequestException, (self, sm1, w1))
                 | Reply status soup \<Rightarrow>
                     (case raise_for_status status of
                        Inl e \<Rightarrow> (Some e, (self, sm1, w1))
                      | Inr _ \<Rightarrow>
                          let self1 = self\<lparr>page_content := Some soup\<rparr>;
                              self2 = self1\<lparr>last_updated := Some (clock w1)\<rparr>;
                              sm2 = add_request sm1 (clock w1)
                          in if find soup ''body'' [] = None
                             then (Some RequestException, (self2, sm2, w1))
                             else (None, (self2, sm2, w1))))))"

text \<open>
  \<^verbatim>\<open>_update_page_content\<close>: the \<^verbatim>\<open>except requests.RequestException\<close> clause prints
  and returns; any other exception propagates.
\<close>

definition update_page_content ::
    "exchange \<Rightarrow> 'p \<Rightarrow> 'p fetch_state \<Rightarrow> error + 'p fetch_state" where
  "update_page_content ex params st =
     (case update_try_block ex params st of
        (None, st') \<Rightarrow> Inr st'
      | (Some e, st') \<Rightarrow> if e = RequestException then Inr st' else Inl e)"

text \<open>
  \<^verbatim>\<open>_get_page_content\<close>. The short-circuit \<^verbatim>\<open>or\<close> chain is written as the
  conditionals it abbreviates; \<open>ex\<close> is what the network would do if asked, and is
  consulted only when the page is refetched. (Isabelle names cannot start with an
  underscore: \<open>update_page_content\<close> and \<open>get_page_content\<close> are the methods
  \<^verbatim>\<open>_update_page_content\<close> and \<^verbatim>\<open>_get_page_content\<close>.)
\<close>

definition get_page_content ::
    "exchange \<Rightarrow> 'p \<Rightarrow> 'p fetch_state \<Rightarrow> error + (node option \<times> 'p fetch_state)" where
  "get_page_content ex params st =
     (case st of (self, sm, w) \<Rightarrow>
        (case (if (case last_updated self of
                     None \<Rightarrow> True
                   | Some lu \<Rightarrow>
                       if Some params \<noteq> last_request self then True
                       else clock w - lu > update_interval self)
               then update_page_content ex params st
               else Inr st) of
           Inl e \<Rightarrow> Inl e
         | Inr (self1, sm1, w1) \<Rightarrow>
             let self2 = self1\<lparr>last_request := Some params\<rparr>
             in Inr (page_content self2, (self2, sm1, w1))))"

section \<open>Runs of the rate limiter\<close>






text \<open>
  The answers on which \<^verbatim>\<open>session.get\<close> or \<^verbatim>\<open>raise_for_status\<close> raises: a connection
  error, or a 4xx or 5xx status.
\<close>

definition transport_failed :: "response \<Rightarrow> bool" where
  "transport_failed r =
     (case r of ConnectionFailed \<Rightarrow> True | Reply status soup \<Rightarrow> 400 \<le> status \<and> status < 600)"

section \<open>Python values\<close>

text \<open>
  Python scalars, and dicts with string keys as association lists in insertion order: the
  request parameters and the records returned to callers.
\<close>

datatype pyvalue = PyInt int | PyStr string | PyFloat real | PyNone

type_synonym pydict = "(string \<times> pyvalue) list"

subsection \<open>Fixtures of the fetch layer\<close>

text \<open>
  Two pages, one with a body and one parsed from empty content, the default limiter, and
  two parameter dicts.
\<close>

abbreviation page_with_body :: node where
  "page_with_body \<equiv>
     Tag ''[document]'' [] [] [Tag ''html'' [] [] [Tag ''body'' [] [] [NavigableString ''ok'']]]"

abbreviation empty_page :: node where
  "empty_page \<equiv> Tag ''[document]'' [] [] []"

abbreviation default_manager :: session_manager where
  "default_manager \<equiv> \<lparr>request_history = [], max_requests_per_second = 15, max_per = 30\<rparr>"

abbreviation params_a :: pydict where
  "params_a \<equiv> [(''page'', PyStr ''athleteDetail''), (''athleteId'', PyStr ''1'')]"


section \<open>utils.py: convert\_time\<close>

text \<open>
  Strings are lists of 8-bit characters; the digits of a swim time are the ASCII digits.
  \<open>int_of_digits\<close> is Python's \<^verbatim>\<open>int\<close> on a string of digits.
\<close>

definition between :: "char \<Rightarrow> char \<Rightarrow> char \<Rightarrow> bool" where
  "between lo hi c = ((of_char lo :: nat) \<le> of_char c \<and> (of_char c :: nat) \<le> of_char hi)"

definition is_digit :: "char \<Rightarrow> bool" where
  "is_digit c = between CHR ''0'' CHR ''9'' c"

definition digit_value :: "char \<Rightarrow> nat" where
  "digit_value c = of_char c - of_char CHR ''0''"

definition int_of_digits :: "string \<Rightarrow> nat" where
  "int_of_digits s = foldl (\<lambda>n c. 10 * n + digit_value c) 0 s"

text \<open>
  \<^verbatim>\<open>datetime.strptime\<close> turns the format into a regular expression, one group per
  directive, and matches it at the start of the string with a backtracking matcher:
  \<^verbatim>\<open>%H\<close> is \<^verbatim>\<open>2[0-3]|[0-1]\d|\d\<close>, \<^verbatim>\<open>%M\<close> is \<^verbatim>\<open>[0-5]\d|\d\<close>, \<^verbatim>\<open>%S\<close> is
  \<^verbatim>\<open>6[0-1]|[0-5]\d|\d\<close>, \<^verbatim>\<open>%f\<close> is \<^verbatim>\<open>[0-9]{1,6}\<close> (greedy), any other character
  stands for itself. A format is a list of directives; \<open>alts d s\<close> lists the ways
  directive \<open>d\<close> matches a prefix of \<open>s\<close> (matched text and rest) in the order the
  matcher tries them, and \<open>match_format\<close> lists all matches of a format in that order, so
  that its first element is the match the regular expression finds.
\<close>

datatype directive = DirH | DirM | DirS | Dirf | Lit char

fun two :: "(char \<Rightarrow> bool) \<Rightarrow> (char \<Rightarrow> bool) \<Rightarrow> string \<Rightarrow> (string \<times> string) list" where
  "two P Q (a # b # rest) = (if P a \<and> Q b then [([a, b], rest)] else [])"
| "two P Q s = []"

fun one :: "(char \<Rightarrow> bool) \<Rightarrow> string \<Rightarrow> (string \<times> string) list" where
  "one P (a # rest) = (if P a then [([a], rest)] else [])"
| "one P [] = []"

fun alts :: "directive \<Rightarrow> string \<Rightarrow> (string \<times> string) list" where
  "alts DirH s = two (\<lambda>c. c = CHR ''2'') (between CHR ''0'' CHR ''3'') s
               @ two (between CHR ''0'' CHR ''1'') is_digit s @ one is_digit s"
| "alts DirM s = two (between CHR ''0'' CHR ''5'') is_digit s @ one is_digit s"
| "alts DirS s = two (\<lambda>c. c = CHR ''6'') (between CHR ''0'' CHR ''1'') s
               @ two (between CHR ''0'' CHR ''5'') is_digit s @ one is_digit s"
| "alts Dirf s = (let n = length (takeWhile is_digit (take 6 s))
                  in map (\<lambda>k. (take k s, drop k s)) (rev [1..<Suc n]))"
| "alts (Lit c) s = one (\<lambda>x. x = c) s"

fun match_format :: "directive list \<Rightarrow> string \<Rightarrow> ((directive \<times> string) list \<times> string) list" where
  "match_format [] s = [([], s)]"
| "match_format (d # ds) s =
     concat (map (\<lambda>(txt, r). map (\<lambda>(found, r'). ((d, txt) # found, r')) (match_format ds r))
               (alts d s))"

text \<open>
  \<^verbatim>\<open>strptime\<close> raises \<^verbatim>\<open>ValueError\<close> when the format does not match or when
  unconverted data remains after the match; fields the format lacks are 0, the fraction is
  padded with zeros to microseconds, and the \<^verbatim>\<open>datetime\<close> constructor raises
  \<^verbatim>\<open>ValueError\<close> for a field out of range (seconds 60 and 61 match \<^verbatim>\<open>%S\<close>).
\<close>

record time =
  hour :: nat
  minute :: nat
  second :: nat
  microsecond :: nat

definition group :: "(directive \<times> string) list \<Rightarrow> directive \<Rightarrow> string option" where
  "group found d = map_of found d"

definition strptime :: "string \<Rightarrow> directive list \<Rightarrow> error + time" where
  "strptime data_string format =
     (case match_format format data_string of
        [] \<Rightarrow> Inl ValueError
      | (found, rest) # _ \<Rightarrow>
          if rest \<noteq> [] then Inl ValueError
          else
            let h = (case group found DirH of None \<Rightarrow> 0 | Some t \<Rightarrow> int_of_digits t);
                m = (case group found DirM of None \<Rightarrow> 0 | Some t \<Rightarrow> int_of_digits t);
                s = (case group found DirS of None \<Rightarrow> 0 | Some t \<Rightarrow> int_of_digits t);
                f = (case group found Dirf of None \<Rightarrow> 0
                     | Some t \<Rightarrow> int_of_digits (t @ replicate (6 - length t) CHR ''0''))
            in if h < 24 \<and> m < 60 \<and> s < 60 \<and> f < 1000000
               then Inr \<lparr>hour = h, minute = m, second = s, microsecond = f\<rparr>
               else Inl ValueError)"

text \<open>
  \<^verbatim>\<open>convert_time\<close>. \<^verbatim>\<open>time_str[-1]\<close> raises \<^verbatim>\<open>IndexError\<close> on the empty string.
  The result is a Python float; the model computes the exact real number.
\<close>

definition convert_time :: "string \<Rightarrow> error + real" where
  "convert_time time_str0 =
     (if time_str0 = [] then Inl IndexError
      else
        let time_str = (if last time_str0 = CHR ''M'' then butlast time_str0 else time_str0);
            col_count = count_list time_str CHR '':'';
            time_format =
              (if col_count = 2
               then [DirH, Lit CHR '':'', DirM, Lit CHR '':'', DirS, Lit CHR ''.'', Dirf]
               else if col_count = 1
               then [DirM, Lit CHR '':'', DirS, Lit CHR ''.'', Dirf]
               else [DirS, Lit CHR ''.'', Dirf])
        in case strptime time_str time_format of
             Inl e \<Rightarrow> Inl e
           | Inr t \<Rightarrow>
               Inr (real (second t) + real (minute t) * 60 + real (hour t) * 3600
                    + real (microsecond t) / 1000000))"

text \<open>
  The fields of a time string \<^verbatim>\<open>[[H:]M:]S.f\<close>: one or two digits with a value below
  the bound, and one to six fraction digits.
\<close>

definition number_field :: "nat \<Rightarrow> string \<Rightarrow> bool" where
  "number_field bound t =
     (list_all is_digit t \<and> (length t = 1 \<or> length t = 2) \<and> int_of_digits t < bound)"

definition fraction_field :: "string \<Rightarrow> bool" where
  "fraction_field t = (list_all is_digit t \<and> 1 \<le> length t \<and> length t \<le> 6)"

section \<open>Library functions used by the listings\<close>

text \<open>
  The listings call into the Python standard library, \<^verbatim>\<open>urllib.parse\<close> and
  BeautifulSoup. Those are modelled by what they do on the inputs the listings give them;
  strings are ASCII.

  \<^verbatim>\<open>str.strip()\<close> removes leading and trailing whitespace; \<^verbatim>\<open>str.replace(old, new)\<close>
  replaces the non-overlapping occurrences of a non-empty \<^verbatim>\<open>old\<close> from left to right
  (\<open>replace_from\<close> carries the number of characters of a match still to be skipped);
  \<open>contains sub s\<close> is \<^verbatim>\<open>sub in s\<close>.
\<close>

definition is_space :: "char \<Rightarrow> bool" where
  "is_space c = (c \<in> set [CHR '' '', CHR 0x09, CHR 0x0A, CHR 0x0B, CHR 0x0C, CHR 0x0D,
                            CHR 0x1C, CHR 0x1D, CHR 0x1E, CHR 0x1F])"

definition strip :: "string \<Rightarrow> string" where
  "strip s = rev (dropWhile is_space (rev (dropWhile is_space s)))"

fun replace_from :: "string \<Rightarrow> string \<Rightarrow> nat \<Rightarrow> string \<Rightarrow> string" where
  "replace_from old new k [] = []"
| "replace_from old new (Suc k) (c # cs) = replace_from old new k cs"
| "replace_from old new 0 (c # cs) =
     (if take (length old) (c # cs) = old
      then new @ replace_from old new (length old - 1) cs
      else c # replace_from old new 0 cs)"

definition replace :: "string \<Rightarrow> string \<Rightarrow> string \<Rightarrow> string" where
  "replace s old new = replace_from old new 0 s"

fun contains :: "string \<Rightarrow> string \<Rightarrow> bool" where
  "contains sub [] = (sub = [])"
| "contains sub (c # cs) = (take (length sub) (c # cs) = sub \<or> contains sub cs)"

text \<open>
  \<^verbatim>\<open>tag.get_text(strip=True)\<close>: the strings below the tag in document order, each
  stripped, the empty ones dropped, concatenated. \<^verbatim>\<open>tag[key]\<close> reads an attribute and
  raises \<^verbatim>\<open>KeyError\<close> when the tag lacks it.
\<close>

fun strings :: "node list \<Rightarrow> string list" where
  "strings [] = []"
| "strings (NavigableString s # ns) = s # strings ns"
| "strings (Tag n cs as ks # ns) = strings ns"

definition get_text :: "node \<Rightarrow> string" where
  "get_text t = concat (filter (\<lambda>s. s \<noteq> []) (map strip (strings (descendants t))))"

fun getitem :: "node \<Rightarrow> string \<Rightarrow> error + string" where
  "getitem (Tag n cs as ks) key =
     (case map_of as key of None \<Rightarrow> Inl KeyError | Some v \<Rightarrow> Inr v)"
| "getitem (NavigableString s) key = Inl TypeError"

text \<open>
  \<^verbatim>\<open>urlparse(url).query\<close> is the text after the first \<^verbatim>\<open>?\<close> of the part before the
  first \<^verbatim>\<open>#\<close>. \<^verbatim>\<open>parse_qs\<close> splits it at \<^verbatim>\<open>&\<close>, splits each piece at its first
  \<^verbatim>\<open>=\<close>, drops pieces without \<^verbatim>\<open>=\<close> or with an empty value, and turns \<^verbatim>\<open>+\<close>
  into a space (percent escapes, which the site's numeric identifiers do not use, are left
  as they are). \<open>first_query_value url key\<close> is
  \<^verbatim>\<open>parse_qs(urlparse(url).query)[key][0]\<close>: the first value of \<open>key\<close>, or
  \<^verbatim>\<open>KeyError\<close>.
\<close>

definition query :: "string \<Rightarrow> string" where
  "query url =
     (let u = takeWhile (\<lambda>c. c \<noteq> CHR ''#'') url
      in if CHR ''?'' \<in> set u then tl (dropWhile (\<lambda>c. c \<noteq> CHR ''?'') u) else [])"

fun split :: "char \<Rightarrow> string \<Rightarrow> string list" where
  "split sep [] = [[]]"
| "split sep (c # cs) =
     (if c = sep then [] # split sep cs
      else (case split sep cs of p # ps \<Rightarrow> (c # p) # ps | [] \<Rightarrow> [[c]]))"

definition unquote_plus :: "string \<Rightarrow> string" where
  "unquote_plus s = map (\<lambda>c. if c = CHR ''+'' then CHR '' '' else c) s"

definition parse_qsl :: "string \<Rightarrow> (string \<times> string) list" where
  "parse_qsl qs =
     concat (map (\<lambda>name_value.
                    if CHR ''='' \<in> set name_value
                    then (let name = takeWhile (\<lambda>c. c \<noteq> CHR ''='') name_value;
                              v = tl (dropWhile (\<lambda>c. c \<noteq> CHR ''='') name_value)
                          in if v \<noteq> [] then [(unquote_plus name, unquote_plus v)] else [])
                    else [])
                 (split CHR ''&'' qs))"

definition first_query_value :: "string \<Rightarrow> string \<Rightarrow> error + string" where
  "first_query_value url key =
     (case map_of (parse_qsl (query url)) key of None \<Rightarrow> Inl KeyError | Some v \<Rightarrow> Inr v)"

text \<open>
  \<^verbatim>\<open>int(s)\<close> on a string: surrounding whitespace and one sign are allowed, the rest is
  decimal digits with single underscores between them; anything else raises
  \<^verbatim>\<open>ValueError\<close>.
\<close>

fun well_grouped :: "string \<Rightarrow> bool" where
  "well_grouped [] = False"
| "well_grouped [c] = is_digit c"
| "well_grouped (c # d # cs) =
     (is_digit c \<and> (if d = CHR ''_'' then well_grouped cs else well_grouped (d # cs)))"

definition int_of_string :: "string \<Rightarrow> error + int" where
  "int_of_string s0 =
     (let s = strip s0;
          negative = (s \<noteq> [] \<and> hd s = CHR ''-'');
          t = (if s \<noteq> [] \<and> (hd s = CHR ''-'' \<or> hd s = CHR ''+'') then tl s else s)
      in if well_grouped t
         then let n = int (int_of_digits (filter (\<lambda>c. c \<noteq> CHR ''_'') t))
              in Inr (if negative then - n else n)
         else Inl ValueError)"

section \<open>athlete.py and meet.py: the listings\<close>

text \<open>
  \<open>then_do\<close> sequences two steps of which the first may raise. A method called on the
  result of \<^verbatim>\<open>find\<close> raises \<^verbatim>\<open>AttributeError\<close> when that result is \<^verbatim>\<open>None\<close>, and
  subscripting \<^verbatim>\<open>None\<close> raises \<^verbatim>\<open>TypeError\<close>.
\<close>

definition then_do :: "error + 'a \<Rightarrow> ('a \<Rightarrow> error + 'b) \<Rightarrow> error + 'b" where
  "then_do m f = (case m of Inl e \<Rightarrow> Inl e | Inr x \<Rightarrow> f x)"

definition find_on :: "node option \<Rightarrow> string \<Rightarrow> string list \<Rightarrow> error + node option" where
  "find_on t name classes =
     (case t of None \<Rightarrow> Inl AttributeError | Some x \<Rightarrow> Inr (find x name classes))"

definition find_all_on :: "node option \<Rightarrow> string \<Rightarrow> string list \<Rightarrow> error + node list" where
  "find_all_on t name classes =
     (case t of None \<Rightarrow> Inl AttributeError | Some x \<Rightarrow> Inr (find_all x name classes))"

definition get_text_on :: "node option \<Rightarrow> error + string" where
  "get_text_on t = (case t of None \<Rightarrow> Inl AttributeError | Some x \<Rightarrow> Inr (get_text x))"

definition getitem_on :: "node option \<Rightarrow> string \<Rightarrow> error + string" where
  "getitem_on t key = (case t of None \<Rightarrow> Inl TypeError | Some x \<Rightarrow> getitem x key)"

subsection \<open>Athlete.list\_personal\_bests\<close>

text \<open>
  The body of the \<^verbatim>\<open>for\<close> loop, statement by statement; \<open>personal_best_rows\<close> is the
  loop, which an exception leaves at once; \<open>personal_bests_of_page\<close> is the method from
  the value returned by \<^verbatim>\<open>_get_page_content\<close> on: the \<^verbatim>\<open>try\<close> block covers
  \<^verbatim>\<open>soup.find\<close> only, and its \<^verbatim>\<open>AttributeError\<close> (the page is \<^verbatim>\<open>None\<close>) gives the
  empty list. \<open>list_personal_bests\<close> is the whole method.
\<close>

definition personal_best_row :: "node \<Rightarrow> error + pydict" where
  "personal_best_row row =
     (let event_cell = find row ''td'' [''event''] in
      then_do (find_on event_cell ''a'' []) (\<lambda>event_link.
      then_do (get_text_on event_link) (\<lambda>event_name.
      let course_cell = find row ''td'' [''course''] in
      then_do (get_text_on course_cell) (\<lambda>course_length.
      let time_cell = find row ''td'' [''time'', ''swimtimeImportant''] in
      then_do (get_text_on time_cell) (\<lambda>time_text.
      then_do (convert_time time_text) (\<lambda>time.
      then_do (find_on time_cell ''a'' []) (\<lambda>time_link.
      then_do (getitem_on time_link ''href'') (\<lambda>result_url.
      then_do (first_query_value result_url ''id'') (\<lambda>id_text.
      then_do (int_of_string id_text) (\<lambda>result_id.
      then_do (get_text_on (find row ''td'' [''code''])) (\<lambda>fina_points.
      Inr [(''result_id'', PyInt result_id), (''event_name'', PyStr event_name),
           (''course_length'', PyStr course_length), (''time'', PyFloat time),
           (''FINA Points'', PyStr fina_points)])))))))))))"

fun personal_best_rows :: "node list \<Rightarrow> error + pydict list" where
  "personal_best_rows [] = Inr []"
| "personal_best_rows (row # rows) =
     then_do (personal_best_row row) (\<lambda>r.
     then_do (personal_best_rows rows) (\<lambda>data. Inr (r # data)))"

definition personal_bests_of_page :: "node option \<Rightarrow> error + pydict list" where
  "personal_bests_of_page soup =
     (case find_on soup ''table'' [''athleteBest''] of
        Inl e \<Rightarrow> if e = AttributeError then Inr [] else Inl e
      | Inr table \<Rightarrow>
          then_do (find_all_on table ''tr'' [''athleteBest0'', ''athleteBest1''])
            personal_best_rows)"

definition list_personal_bests ::
    "exchange \<Rightarrow> pyvalue \<Rightarrow> pyvalue \<Rightarrow> pydict fetch_state
       \<Rightarrow> error + (pydict list \<times> pydict fetch_state)" where
  "list_personal_bests ex athlete_id season st =
     (let params = [(''page'', PyStr ''athleteDetail''), (''athleteId'', athlete_id),
                    (''pbest'', season)]
      in case get_page_content ex params st of
           Inl e \<Rightarrow> if e = AttributeError then Inr ([], st) else Inl e
         | Inr (soup, st') \<Rightarrow>
             then_do (personal_bests_of_page soup) (\<lambda>data. Inr (data, st')))"

subsection \<open>Meet.list\_clubs\<close>

definition club_row :: "node \<Rightarrow> error + pydict" where
  "club_row row =
     (let club_cell = find row ''td'' [''club''] in
      then_do (find_on club_cell ''a'' []) (\<lambda>club_link.
      then_do (getitem_on club_link ''href'') (\<lambda>club_url.
      then_do (first_query_value club_url ''clubId'') (\<lambda>club_id.
      then_do (find_on club_cell ''a'' []) (\<lambda>club_link2.
      then_do (get_text_on club_link2) (\<lambda>club_name.
      Inr [(''club_id'', PyStr club_id), (''club_name'', PyStr club_name)]))))))"

fun club_rows :: "node list \<Rightarrow> error + pydict list" where
  "club_rows [] = Inr []"
| "club_rows (row # rows) =
     then_do (club_row row) (\<lambda>r.
     then_do (club_rows rows) (\<lambda>data. Inr (r # data)))"

definition clubs_of_page :: "node option \<Rightarrow> error + pydict list" where
  "clubs_of_page soup =
     (case find_on soup ''table'' [''meetSearch''] of
        Inl e \<Rightarrow> if e = AttributeError then Inr [] else Inl e
      | Inr table \<Rightarrow>
          then_do (find_all_on table ''tr'' [''meetResult0'', ''meetResult1'']) club_rows)"

definition list_clubs ::
    "exchange \<Rightarrow> pyvalue \<Rightarrow> pydict fetch_state \<Rightarrow> error + (pydict list \<times> pydict fetch_state)" where
  "list_clubs ex meet_id st =
     (let params = [(''page'', PyStr ''meetDetail''), (''meetId'', meet_id)]
      in case get_page_content ex params st of
           Inl e \<Rightarrow> if e = AttributeError then Inr ([], st) else Inl e
         | Inr (soup, st') \<Rightarrow> then_do (clubs_of_page soup) (\<lambda>data. Inr (data, st')))"

subsection \<open>Athlete.search\_athletes\<close>

text \<open>
  The body of the row's \<^verbatim>\<open>try\<close> block: \<open>Inr None\<close> is one of the two explicit
  \<^verbatim>\<open>continue\<close> statements, \<open>Inl e\<close> a raised exception. \<open>search_rows\<close> is the loop
  with its \<^verbatim>\<open>except (AttributeError, ValueError, KeyError, IndexError): continue\<close>.
  \<^verbatim>\<open>search_athletes\<close> builds a temporary instance with the default interval of 60
  seconds, and returns the empty list when the table is missing.
\<close>

definition search_row :: "node \<Rightarrow> error + pydict option" where
  "search_row row =
     (case find row ''td'' [''name''] of
        None \<Rightarrow> Inr None
      | Some name_cell \<Rightarrow>
          (case find name_cell ''a'' [] of
             None \<Rightarrow> Inr None
           | Some name_link \<Rightarrow>
               let athlete_name = replace (replace (get_text name_link) ''<b>'' []) ''</b>'' [] in
               then_do (getitem name_link ''href'') (\<lambda>athlete_url.
               then_do (first_query_value athlete_url ''athleteId'') (\<lambda>id_text.
               then_do (int_of_string id_text) (\<lambda>athlete_id.
               let date_cell = find row ''td'' [''date''];
                   birth_year = (case date_cell of Some c \<Rightarrow> get_text c | None \<Rightarrow> []);
                   gender_img = find row ''img'' []
               in
               then_do (case gender_img of
                          None \<Rightarrow> Inr ''f''
                        | Some img \<Rightarrow>
                            then_do (getitem img ''src'') (\<lambda>src.
                              Inr (if contains ''gender1.png'' src then ''m'' else ''f'')))
                 (\<lambda>gender.
               let code_cell = find row ''td'' [''code''];
                   country_code = (case code_cell of Some c \<Rightarrow> get_text c | None \<Rightarrow> []);
                   club_cell = find row ''td'' [''club''];
                   club_name = (case club_cell of Some c \<Rightarrow> get_text c | None \<Rightarrow> [])
               in Inr (Some [(''athlete_id'', PyInt athlete_id), (''name'', PyStr athlete_name),
                             (''birth_year'', PyStr birth_year), (''gender'', PyStr gender),
                             (''country_code'', PyStr country_code),
                             (''club_name'', PyStr club_name)])))))))"

fun search_rows :: "node list \<Rightarrow> error + pydict list" where
  "search_rows [] = Inr []"
| "search_rows (row # rows) =
     (case search_row row of
        Inl e \<Rightarrow>
          if e \<in> {AttributeError, ValueError, KeyError, IndexError}
          then search_rows rows else Inl e
      | Inr None \<Rightarrow> search_rows rows
      | Inr (Some r) \<Rightarrow> then_do (search_rows rows) (\<lambda>data. Inr (r # data)))"

definition athletes_of_page :: "node option \<Rightarrow> error + pydict list" where
  "athletes_of_page soup =
     (case find_on soup ''table'' [''athleteSearch''] of
        Inl e \<Rightarrow> if e = AttributeError then Inr [] else Inl e
      | Inr None \<Rightarrow> Inr []
      | Inr (Some table) \<Rightarrow>
          search_rows (find_all table ''tr'' [''athleteSearch0'', ''athleteSearch1'']))"

definition search_athletes ::
    "exchange \<Rightarrow> string \<Rightarrow> session_manager \<Rightarrow> int \<Rightarrow> int \<Rightarrow> pydict world
       \<Rightarrow> error + (pydict list \<times> session_manager \<times> pydict world)" where
  "search_athletes ex name sessionManager club_id gender w =
     (let temp_instance = ScraperMixin_init 60;
          params = [(''internalRequest'', PyStr ''athleteFind''),
                    (''athlete_clubId'', PyInt club_id),
                    (''athlete_gender'', PyInt gender),
                    (''athlete_lastname'', PyStr name),
                    (''athlete_firstname'', PyStr [])]
      in case get_page_content ex params (temp_instance, sessionManager, w) of
           Inl e \<Rightarrow> if e = AttributeError then Inr ([], sessionManager, w) else Inl e
         | Inr (soup, (self', sm', w')) \<Rightarrow>
             then_do (athletes_of_page soup) (\<lambda>data. Inr (data, sm', w')))"

section \<open>Fixture pages\<close>

text \<open>
  A personal-bests table row with all its cells and one without the event cell; an
  athlete-search row with all its cells and one without the country-code cell.
\<close>

abbreviation best_row_complete :: node where
  "best_row_complete \<equiv>
     Tag ''tr'' [''athleteBest0''] []
       [Tag ''td'' [''event''] [] [Tag ''a'' [] [(''href'', ''?page=rankingDetail&styleId=1'')]
                                    [NavigableString ''50m Freestyle'']],
        Tag ''td'' [''course''] [] [NavigableString ''25m''],
        Tag ''td'' [''time''] [] [Tag ''a'' [] [(''href'', ''?page=resultDetail&id=123'')]
                                   [NavigableString ''23.45'']],
        Tag ''td'' [''code''] [] [NavigableString ''650'']]"

abbreviation best_row_without_event :: node where
  "best_row_without_event \<equiv>
     Tag ''tr'' [''athleteBest1''] []
       [Tag ''td'' [''course''] [] [NavigableString ''50m''],
        Tag ''td'' [''time''] [] [Tag ''a'' [] [(''href'', ''?page=resultDetail&id=124'')]
                                   [NavigableString ''24.45'']],
        Tag ''td'' [''code''] [] [NavigableString ''600'']]"

abbreviation bests_page :: "node list \<Rightarrow> node" where
  "bests_page rows \<equiv>
     Tag ''[document]'' [] []
       [Tag ''html'' [] [] [Tag ''body'' [] [] [Tag ''table'' [''athleteBest''] [] rows]]]"




section \<open>Properties of the rate limiter\<close>










section \<open>Properties of the cached fetch\<close>




lemma get_cached:
  assumes "last_updated self = Some lu" and "last_request self = Some p"
    and "clock w - lu \<le> update_interval self"
  shows "get_page_content ex p (self, sm, w) = Inr (page_content self, (self, sm, w))"
  using assms by (simp add: get_page_content_def)


lemma check_keeps_limit:
  "check_request_rate_limit sm now = Inr (sm1, now1) \<Longrightarrow>
     max_requests_per_second sm1 = max_requests_per_second sm \<and> max_per sm1 = max_per sm"
  by (auto simp: check_request_rate_limit_def Let_def split: if_splits list.splits)



lemma find_body_page [simp]: "find page_with_body ''body'' [] \<noteq> None"
  by (simp add: find_def find_all_def)

lemma find_body_empty [simp]: "find empty_page ''body'' [] = None"
  by (simp add: find_def find_all_def)

lemma check_default [simp]: "check_request_rate_limit default_manager now = Inr (default_manager, now)"
  by (simp add: check_request_rate_limit_def)



subsection \<open>Failed requests\<close>



text \<open>
  Claim C5 fails on the code. A first fetch caches a page; the interval expires; the next
  fetch meets a connection error. \<^verbatim>\<open>_get_page_content\<close> then returns the page cached
  before, not \<^verbatim>\<open>None\<close>.
\<close>

theorem stale_page_returned_after_failure:
  "get_page_content \<lparr>answer = ConnectionFailed, latency = 1\<rparr> params_a
     (\<lparr>last_request = Some params_a, page_content = Some page_with_body,
       update_interval = 60, last_updated = Some 1\<rparr>,
      default_manager\<lparr>request_history := [1]\<rparr>, \<lparr>clock = 100, sent = [params_a]\<rparr>)
   = Inr (Some page_with_body,
          (\<lparr>last_request = Some params_a, page_content = Some page_with_body,
            update_interval = 60, last_updated = Some 1\<rparr>,
           default_manager\<lparr>request_history := [1]\<rparr>,
           \<lparr>clock = 101, sent = [params_a, params_a]\<rparr>))"
  by (simp add: get_page_content_def update_page_content_def update_try_block_def
      check_request_rate_limit_def)

text \<open>
  Claim C4 fails on the code for an empty body. The page and the timestamp are assigned
  before the body is looked for, so a 200 response whose content parses to a document
  without \<^verbatim>\<open>body\<close> replaces the cached page and its timestamp, and is recorded by the
  limiter, before "Empty response" is raised and caught.
\<close>

theorem empty_response_overwrites_cache:
  "update_page_content \<lparr>answer = Reply 200 empty_page, latency = 1\<rparr> params_a
     (\<lparr>last_request = Some params_a, page_content = Some page_with_body,
       update_interval = 60, last_updated = Some 1\<rparr>,
      default_manager\<lparr>request_history := [1]\<rparr>, \<lparr>clock = 100, sent = [params_a]\<rparr>)
   = Inr (\<lparr>last_request = Some params_a, page_content = Some empty_page,
            update_interval = 60, last_updated = Some 101\<rparr>,
          default_manager\<lparr>request_history := [1, 101]\<rparr>,
          \<lparr>clock = 101, sent = [params_a, params_a]\<rparr>)"
  by (simp add: update_page_content_def update_try_block_def raise_for_status_def
      check_request_rate_limit_def add_request_def)

text \<open>
  On a connection error or a 4xx/5xx status the instance is left as it was: page,
  timestamp and recorded parameters.
\<close>

lemma failed_update_keeps_cache:
  assumes "update_page_content ex p (self, sm, w) = Inr (self1, sm1, w1)"
    and "transport_failed (answer ex)"
  shows "self1 = self"
  using assms
  by (auto simp: update_page_content_def update_try_block_def raise_for_status_def
      transport_failed_def Let_def split: response.splits sum.splits prod.splits if_splits)

subsection \<open>Unvalidated limiter parameters\<close>

text \<open>
  Claim C7 fails on the code: the constructor accepts a limit of 0 requests, and the first
  rate-limit check on that manager raises \<^verbatim>\<open>IndexError\<close>.
\<close>

theorem unchecked_limit_counterexample:
  "SessionManager_init (0, 30)
     = Inr \<lparr>request_history = [], max_requests_per_second = 0, max_per = 30\<rparr> \<and>
   check_request_rate_limit
     \<lparr>request_history = [], max_requests_per_second = 0, max_per = 30\<rparr> 0 = Inl IndexError"
  by (simp add: SessionManager_init_def check_request_rate_limit_def)

text \<open>
  Claim C7, as amended. The constructor validates nothing: it returns a manager holding
  the parameters it was given, whatever they are. Such a manager does not block forever:
  with a request count of 0 or less, a check that finds a recorded request inside the
  window sleeps until the oldest of them leaves the window, and returns; with a window of
  0 or less and a positive count, the check returns at once without waiting, as long as no
  timestamp lies in the future.
\<close>

theorem unchecked_limit:
  "SessionManager_init (N, W)
     = Inr \<lparr>request_history = [], max_requests_per_second = N, max_per = W\<rparr> \<and>
   (max_requests_per_second sm \<le> 0 \<longrightarrow>
      filter (\<lambda>t. now - max_per sm < t) (request_history sm) = v # vs \<longrightarrow>
      check_request_rate_limit sm now =
        Inr (sm\<lparr>request_history := filter (\<lambda>t. v < t) (request_history sm)\<rparr>,
             v + max_per sm)) \<and>
   (0 < max_requests_per_second sm \<longrightarrow> max_per sm \<le> 0 \<longrightarrow>
      (\<forall>t \<in> set (request_history sm). t \<le> now) \<longrightarrow>
      check_request_rate_limit sm now = Inr (sm, now))"
proof (intro conjI impI)
  show "SessionManager_init (N, W)
     = Inr \<lparr>request_history = [], max_requests_per_second = N, max_per = W\<rparr>"
    by (simp add: SessionManager_init_def)
next
  assume n: "max_requests_per_second sm \<le> 0"
    and f: "filter (\<lambda>t. now - max_per sm < t) (request_history sm) = v # vs"
  then have "v \<in> set (filter (\<lambda>t. now - max_per sm < t) (request_history sm))" by simp
  then have "now - max_per sm < v" by simp
  moreover have "max_requests_per_second sm \<le> int (Suc (length vs))" using n by linarith
  ultimately show "check_request_rate_limit sm now =
        Inr (sm\<lparr>request_history := filter (\<lambda>t. v < t) (request_history sm)\<rparr>, v + max_per sm)"
    using f by (simp add: check_request_rate_limit_def)
next
  assume n: "0 < max_requests_per_second sm" and w: "max_per sm \<le> 0"
    and h: "\<forall>t \<in> set (request_history sm). t \<le> now"
  have "filter (\<lambda>t. now - max_per sm < t) (request_history sm) = []"
    using w h by (auto simp: filter_empty_conv)
  then show "check_request_rate_limit sm now = Inr (sm, now)"
    using n by (simp add: check_request_rate_limit_def)
qed

theorem unchecked_limit_witness:
  "SessionManager_init (-1, -30)
     = Inr \<lparr>request_history = [], max_requests_per_second = -1, max_per = -30\<rparr> \<and>
   (0::int) \<le> 0 \<and>
   filter (\<lambda>t. 5 - 30 < t) [1, 2 :: real] = 1 # [2] \<and>
   check_request_rate_limit
     \<lparr>request_history = [1, 2], max_requests_per_second = 0, max_per = 30\<rparr> 5
       = Inr (\<lparr>request_history = [2], max_requests_per_second = 0, max_per = 30\<rparr>, 31) \<and>
   (0::int) < 15 \<and> (0::real) \<le> 0 \<and> (1::real) \<le> 2 \<and> (2::real) \<le> 2 \<and>
   check_request_rate_limit
     \<lparr>request_history = [1, 2], max_requests_per_second = 15, max_per = 0\<rparr> 2
       = Inr (\<lparr>request_history = [1, 2], max_requests_per_second = 15, max_per = 0\<rparr>, 2)"
  using unchecked_limit [of "-1" "-30"
      "\<lparr>request_history = [1, 2], max_requests_per_second = 0, max_per = 30\<rparr>" 5 1 "[2]"]
    unchecked_limit [of "-1" "-30"
      "\<lparr>request_history = [1, 2], max_requests_per_second = 15, max_per = 0\<rparr>" 2 1 "[2]"]
  by simp

section \<open>Properties of convert\_time\<close>

subsection \<open>The three documented conversions\<close>

lemma foldl_digits_zeros:
  "foldl (\<lambda>n c. 10 * n + digit_value c) a (replicate k CHR ''0'') = a * 10 ^ k"
  by (induction k arbitrary: a) (simp_all add: digit_value_def)

lemmas foldl_digits_zeros' = foldl_digits_zeros [unfolded digit_value_def, simplified]

lemma int_of_digits_pad:
  "int_of_digits (t @ replicate k CHR ''0'') = int_of_digits t * 10 ^ k"
  by (simp add: int_of_digits_def foldl_digits_zeros)

lemma convert_hours_minutes_seconds: "convert_time ''1:02:03.450'' = Inr 3723.45"
  by (simp add: convert_time_def strptime_def group_def foldl_digits_zeros' int_of_digits_def digit_value_def
      is_digit_def between_def Let_def)

lemma convert_seconds_only: "convert_time ''23.45'' = Inr 23.45"
  by (simp add: convert_time_def strptime_def group_def foldl_digits_zeros' int_of_digits_def digit_value_def
      is_digit_def between_def Let_def)

lemma convert_with_marker: "convert_time ''02:03.45M'' = Inr 123.45"
  by (simp add: convert_time_def strptime_def group_def foldl_digits_zeros' int_of_digits_def digit_value_def
      is_digit_def between_def Let_def)

subsection \<open>Well-formed time strings\<close>

lemma not_digit_ranges:
  "\<not> is_digit c \<Longrightarrow> \<not> between CHR ''0'' CHR ''1'' c"
  "\<not> is_digit c \<Longrightarrow> \<not> between CHR ''0'' CHR ''3'' c"
  "\<not> is_digit c \<Longrightarrow> \<not> between CHR ''0'' CHR ''5'' c"
  by (auto simp: is_digit_def between_def)

lemma char_is_2: "(a = CHR ''2'') = (of_char a = (50::nat))"
  using of_char_eq_iff [of a "CHR ''2''", where ?'a = nat] by simp

lemma char_is_6: "(a = CHR ''6'') = (of_char a = (54::nat))"
  using of_char_eq_iff [of a "CHR ''6''", where ?'a = nat] by simp

lemma int_of_digits_simps:
  "int_of_digits [] = 0"
  "int_of_digits [a] = digit_value a"
  "int_of_digits [a, b] = 10 * digit_value a + digit_value b"
  by (simp_all add: int_of_digits_def)

lemma one_or_two:
  assumes "length hs = 1 \<or> length hs = 2"
  obtains a where "hs = [a]" | a b where "hs = [a, b]"
  using assms by (cases hs; cases "tl hs"; cases "tl (tl hs)") auto

lemma alts_H_two:
  assumes "is_digit a" "is_digit b" "int_of_digits [a, b] < 24"
  shows "alts DirH (a # b # rest) = [([a, b], rest), ([a], b # rest)]"
proof (cases "a = CHR ''2''")
  case True
  with assms show ?thesis
    by (simp add: int_of_digits_simps digit_value_def is_digit_def between_def) arith?
next
  case False
  then have "of_char a \<noteq> (50::nat)" by (simp add: char_is_2)
  with assms False show ?thesis
    by (simp add: int_of_digits_simps digit_value_def is_digit_def between_def) arith
qed

lemma alts_M_two:
  assumes "is_digit a" "is_digit b" "int_of_digits [a, b] < 60"
  shows "alts DirM (a # b # rest) = [([a, b], rest), ([a], b # rest)]"
  using assms by (simp add: int_of_digits_simps digit_value_def is_digit_def between_def) arith

lemma alts_S_two:
  assumes "is_digit a" "is_digit b" "int_of_digits [a, b] < 60"
  shows "alts DirS (a # b # rest) = [([a, b], rest), ([a], b # rest)]"
proof -
  from assms have "of_char a \<noteq> (54::nat)"
    by (auto simp: int_of_digits_simps digit_value_def is_digit_def between_def)
  then have "a \<noteq> CHR ''6''" by (simp add: char_is_6)
  with assms show ?thesis
    by (simp add: int_of_digits_simps digit_value_def is_digit_def between_def) arith
qed

lemma alts_field_one:
  assumes "is_digit a" "\<not> is_digit c"
  shows "alts DirH (a # c # rest) = [([a], c # rest)]"
    and "alts DirM (a # c # rest) = [([a], c # rest)]"
    and "alts DirS (a # c # rest) = [([a], c # rest)]"
  using assms by (simp_all add: not_digit_ranges)

lemma alts_Lit: "alts (Lit c) (x # rest) = (if x = c then [([x], rest)] else [])"
  by simp

lemma match_H:
  assumes "list_all is_digit hs" "length hs = 1 \<or> length hs = 2" "int_of_digits hs < 24"
    and "\<not> is_digit c"
  shows "match_format (DirH # Lit c # ds) (hs @ c # rest)
         = map (\<lambda>(found, r). ((DirH, hs) # (Lit c, [c]) # found, r)) (match_format ds rest)"
  using assms(2)
proof (cases rule: one_or_two)
  case (1 a)
  with assms show ?thesis by (simp add: alts_field_one alts_Lit split_def del: alts.simps)
next
  case (2 a b)
  with assms have "b \<noteq> c" by auto
  with assms 2 show ?thesis by (simp add: alts_H_two alts_Lit split_def del: alts.simps)
qed

lemma match_M:
  assumes "list_all is_digit hs" "length hs = 1 \<or> length hs = 2" "int_of_digits hs < 60"
    and "\<not> is_digit c"
  shows "match_format (DirM # Lit c # ds) (hs @ c # rest)
         = map (\<lambda>(found, r). ((DirM, hs) # (Lit c, [c]) # found, r)) (match_format ds rest)"
  using assms(2)
proof (cases rule: one_or_two)
  case (1 a)
  with assms show ?thesis by (simp add: alts_field_one alts_Lit split_def del: alts.simps)
next
  case (2 a b)
  with assms have "b \<noteq> c" by auto
  with assms 2 show ?thesis by (simp add: alts_M_two alts_Lit split_def del: alts.simps)
qed

lemma match_S:
  assumes "list_all is_digit hs" "length hs = 1 \<or> length hs = 2" "int_of_digits hs < 60"
    and "\<not> is_digit c"
  shows "match_format (DirS # Lit c # ds) (hs @ c # rest)
         = map (\<lambda>(found, r). ((DirS, hs) # (Lit c, [c]) # found, r)) (match_format ds rest)"
  using assms(2)
proof (cases rule: one_or_two)
  case (1 a)
  with assms show ?thesis by (simp add: alts_field_one alts_Lit split_def del: alts.simps)
next
  case (2 a b)
  with assms have "b \<noteq> c" by auto
  with assms 2 show ?thesis by (simp add: alts_S_two alts_Lit split_def del: alts.simps)
qed

lemma alts_f:
  assumes "fraction_field fs"
  shows "\<exists>more. alts Dirf fs = (fs, []) # more"
proof -
  from assms have d: "list_all is_digit fs" and n: "1 \<le> length fs" "length fs \<le> 6"
    by (simp_all add: fraction_field_def)
  from d n have "takeWhile is_digit (take 6 fs) = fs"
    by (simp add: list_all_iff)
  moreover have "rev [1..<Suc (length fs)] = length fs # rev [1..<length fs]"
    using n by simp
  ultimately show ?thesis by simp
qed

lemma int_of_digits_snoc: "int_of_digits (t @ [c]) = 10 * int_of_digits t + digit_value c"
  by (simp add: int_of_digits_def)

lemma int_of_digits_bound: "list_all is_digit t \<Longrightarrow> int_of_digits t < 10 ^ length t"
proof (induction t rule: rev_induct)
  case Nil
  then show ?case by (simp add: int_of_digits_simps)
next
  case (snoc c t)
  then have "digit_value c \<le> 9" by (auto simp: is_digit_def between_def digit_value_def)
  moreover from snoc have "int_of_digits t < 10 ^ length t" by simp
  ultimately show ?case by (simp add: int_of_digits_snoc)
qed

lemma microsecond_bound:
  assumes "fraction_field fs"
  shows "int_of_digits fs * 10 ^ (6 - length fs) < 1000000"
proof -
  from assms have b: "int_of_digits fs < 10 ^ length fs" and n: "length fs \<le> 6"
    by (simp_all add: fraction_field_def int_of_digits_bound)
  then have "int_of_digits fs * 10 ^ (6 - length fs) < 10 ^ length fs * 10 ^ (6 - length fs)"
    by simp
  also have "\<dots> = (10::nat) ^ 6" using n by (simp flip: power_add)
  finally show ?thesis by simp
qed

lemma not_digit_sep [simp]: "\<not> is_digit CHR '':''" "\<not> is_digit CHR ''.''"
  by (simp_all add: is_digit_def between_def)

lemma strptime_S:
  assumes "number_field 60 ss" "fraction_field fs"
  shows "strptime (ss @ CHR ''.'' # fs) [DirS, Lit CHR ''.'', Dirf]
         = Inr \<lparr>hour = 0, minute = 0, second = int_of_digits ss,
                microsecond = int_of_digits fs * 10 ^ (6 - length fs)\<rparr>"
proof -
  from alts_f [OF assms(2)] obtain more where f: "alts Dirf fs = (fs, []) # more" by blast
  have "match_format [DirS, Lit CHR ''.'', Dirf] (ss @ CHR ''.'' # fs)
        = map (\<lambda>(found, r). ((DirS, ss) # (Lit CHR ''.'', ''.'') # found, r)) (match_format [Dirf] fs)"
    using assms(1) by (intro match_S) (simp_all add: number_field_def)
  then show ?thesis
    using f assms microsecond_bound [OF assms(2)]
    by (simp add: strptime_def group_def int_of_digits_pad number_field_def del: alts.simps)
qed

lemma strptime_MS:
  assumes "number_field 60 ms" "number_field 60 ss" "fraction_field fs"
  shows "strptime (ms @ CHR '':'' # ss @ CHR ''.'' # fs) [DirM, Lit CHR '':'', DirS, Lit CHR ''.'', Dirf]
         = Inr \<lparr>hour = 0, minute = int_of_digits ms, second = int_of_digits ss,
                microsecond = int_of_digits fs * 10 ^ (6 - length fs)\<rparr>"
proof -
  from alts_f [OF assms(3)] obtain more where f: "alts Dirf fs = (fs, []) # more" by blast
  have "match_format [DirM, Lit CHR '':'', DirS, Lit CHR ''.'', Dirf] (ms @ CHR '':'' # ss @ CHR ''.'' # fs)
        = map (\<lambda>(found, r). ((DirM, ms) # (Lit CHR '':'', '':'') # found, r))
            (match_format [DirS, Lit CHR ''.'', Dirf] (ss @ CHR ''.'' # fs))"
    using assms(1) by (intro match_M) (simp_all add: number_field_def)
  moreover have "match_format [DirS, Lit CHR ''.'', Dirf] (ss @ CHR ''.'' # fs)
        = map (\<lambda>(found, r). ((DirS, ss) # (Lit CHR ''.'', ''.'') # found, r)) (match_format [Dirf] fs)"
    using assms(2) by (intro match_S) (simp_all add: number_field_def)
  ultimately show ?thesis
    using f assms microsecond_bound [OF assms(3)]
    by (simp add: strptime_def group_def int_of_digits_pad number_field_def del: alts.simps)
qed

lemma strptime_HMS:
  assumes "number_field 24 hs" "number_field 60 ms" "number_field 60 ss" "fraction_field fs"
  shows "strptime (hs @ CHR '':'' # ms @ CHR '':'' # ss @ CHR ''.'' # fs)
           [DirH, Lit CHR '':'', DirM, Lit CHR '':'', DirS, Lit CHR ''.'', Dirf]
         = Inr \<lparr>hour = int_of_digits hs, minute = int_of_digits ms, second = int_of_digits ss,
                microsecond = int_of_digits fs * 10 ^ (6 - length fs)\<rparr>"
proof -
  from alts_f [OF assms(4)] obtain more where f: "alts Dirf fs = (fs, []) # more" by blast
  have "match_format [DirH, Lit CHR '':'', DirM, Lit CHR '':'', DirS, Lit CHR ''.'', Dirf]
          (hs @ CHR '':'' # ms @ CHR '':'' # ss @ CHR ''.'' # fs)
        = map (\<lambda>(found, r). ((DirH, hs) # (Lit CHR '':'', '':'') # found, r))
            (match_format [DirM, Lit CHR '':'', DirS, Lit CHR ''.'', Dirf] (ms @ CHR '':'' # ss @ CHR ''.'' # fs))"
    using assms(1) by (intro match_H) (simp_all add: number_field_def)
  moreover have "match_format [DirM, Lit CHR '':'', DirS, Lit CHR ''.'', Dirf] (ms @ CHR '':'' # ss @ CHR ''.'' # fs)
        = map (\<lambda>(found, r). ((DirM, ms) # (Lit CHR '':'', '':'') # found, r))
            (match_format [DirS, Lit CHR ''.'', Dirf] (ss @ CHR ''.'' # fs))"
    using assms(2) by (intro match_M) (simp_all add: number_field_def)
  moreover have "match_format [DirS, Lit CHR ''.'', Dirf] (ss @ CHR ''.'' # fs)
        = map (\<lambda>(found, r). ((DirS, ss) # (Lit CHR ''.'', ''.'') # found, r)) (match_format [Dirf] fs)"
    using assms(3) by (intro match_S) (simp_all add: number_field_def)
  ultimately show ?thesis
    using f assms microsecond_bound [OF assms(4)]
    by (simp add: strptime_def group_def int_of_digits_pad number_field_def del: alts.simps)
qed

lemma count_colon_digits: "list_all is_digit t \<Longrightarrow> count_list t CHR '':'' = 0"
  by (induction t) auto

lemma count_list_app: "count_list (xs @ ys) c = count_list xs c + count_list ys c"
  by (induction xs) auto

lemma strip_marker:
  assumes "fraction_field fs" "marker = [] \<or> marker = ''M''"
  shows "(pre @ fs @ marker) \<noteq> []"
    and "(if last (pre @ fs @ marker) = CHR ''M'' then butlast (pre @ fs @ marker)
         else pre @ fs @ marker) = pre @ fs"
proof -
  from assms(1) have ne: "fs \<noteq> []" and d: "list_all is_digit fs"
    by (auto simp: fraction_field_def)
  then show "(pre @ fs @ marker) \<noteq> []" by simp
  from ne d have "is_digit (last fs)" by (simp add: list_all_iff)
  then have "last fs \<noteq> CHR ''M''" by (auto simp: is_digit_def between_def)
  with ne assms(2) show "(if last (pre @ fs @ marker) = CHR ''M'' then butlast (pre @ fs @ marker)
         else pre @ fs @ marker) = pre @ fs"
    by (auto simp: butlast_append)
qed

lemma micro_fraction:
  assumes "fraction_field fs"
  shows "real (int_of_digits fs) * 10 ^ (6 - length fs)
         = real (int_of_digits fs) * 1000000 / 10 ^ length fs"
proof -
  from assms have n: "length fs \<le> 6" by (simp add: fraction_field_def)
  have e: "(1000000::real) = 10 ^ length fs * 10 ^ (6 - length fs)"
    using n by (simp flip: power_add)
  show ?thesis unfolding e by simp
qed

lemma convert_time_stripped:
  assumes "time_str0 \<noteq> []"
    and "(if last time_str0 = CHR ''M'' then butlast time_str0 else time_str0) = time_str"
    and "strptime time_str
           (if count_list time_str CHR '':'' = 2
            then [DirH, Lit CHR '':'', DirM, Lit CHR '':'', DirS, Lit CHR ''.'', Dirf]
            else if count_list time_str CHR '':'' = 1
            then [DirM, Lit CHR '':'', DirS, Lit CHR ''.'', Dirf]
            else [DirS, Lit CHR ''.'', Dirf]) = Inr t"
  shows "convert_time time_str0
         = Inr (real (second t) + real (minute t) * 60 + real (hour t) * 3600
                + real (microsecond t) / 1000000)"
  unfolding convert_time_def Let_def assms(2) using assms(1,3) by simp

lemma convert_time_HMS:
  assumes "number_field 24 hs" "number_field 60 ms" "number_field 60 ss" "fraction_field fs"
    and "marker = [] \<or> marker = ''M''"
  shows "convert_time (hs @ '':'' @ ms @ '':'' @ ss @ ''.'' @ fs @ marker)
         = Inr (3600 * real (int_of_digits hs) + 60 * real (int_of_digits ms)
                + real (int_of_digits ss) + real (int_of_digits fs) / 10 ^ length fs)"
proof -
  let ?pre = "hs @ '':'' @ ms @ '':'' @ ss @ ''.''"
  let ?body = "hs @ CHR '':'' # ms @ CHR '':'' # ss @ CHR ''.'' # fs"
  have eq: "hs @ '':'' @ ms @ '':'' @ ss @ ''.'' @ fs @ marker = ?pre @ fs @ marker" by simp
  have body: "?pre @ fs = ?body" by simp
  have cnt: "count_list ?body CHR '':'' = 2"
    using assms(1-4) by (simp add: count_list_app count_colon_digits number_field_def fraction_field_def)
  note s = strip_marker [OF assms(4,5), of ?pre, unfolded body]
  have p: "strptime ?body
           (if count_list ?body CHR '':'' = 2
            then [DirH, Lit CHR '':'', DirM, Lit CHR '':'', DirS, Lit CHR ''.'', Dirf]
            else if count_list ?body CHR '':'' = 1
            then [DirM, Lit CHR '':'', DirS, Lit CHR ''.'', Dirf]
            else [DirS, Lit CHR ''.'', Dirf])
         = Inr \<lparr>hour = int_of_digits hs, minute = int_of_digits ms, second = int_of_digits ss,
                microsecond = int_of_digits fs * 10 ^ (6 - length fs)\<rparr>"
    unfolding cnt using strptime_HMS [OF assms(1-4)] by simp
  show ?thesis
    unfolding eq convert_time_stripped [OF s p]
    by (simp add: micro_fraction [OF assms(4)])
qed

lemma convert_time_MS:
  assumes "number_field 60 ms" "number_field 60 ss" "fraction_field fs"
    and "marker = [] \<or> marker = ''M''"
  shows "convert_time (ms @ '':'' @ ss @ ''.'' @ fs @ marker)
         = Inr (60 * real (int_of_digits ms)
                + real (int_of_digits ss) + real (int_of_digits fs) / 10 ^ length fs)"
proof -
  let ?pre = "ms @ '':'' @ ss @ ''.''"
  let ?body = "ms @ CHR '':'' # ss @ CHR ''.'' # fs"
  have eq: "ms @ '':'' @ ss @ ''.'' @ fs @ marker = ?pre @ fs @ marker" by simp
  have body: "?pre @ fs = ?body" by simp
  have cnt: "count_list ?body CHR '':'' = 1"
    using assms(1-3) by (simp add: count_list_app count_colon_digits number_field_def fraction_field_def)
  note s = strip_marker [OF assms(3,4), of ?pre, unfolded body]
  have p: "strptime ?body
           (if count_list ?body CHR '':'' = 2
            then [DirH, Lit CHR '':'', DirM, Lit CHR '':'', DirS, Lit CHR ''.'', Dirf]
            else if count_list ?body CHR '':'' = 1
            then [DirM, Lit CHR '':'', DirS, Lit CHR ''.'', Dirf]
            else [DirS, Lit CHR ''.'', Dirf])
         = Inr \<lparr>hour = 0, minute = int_of_digits ms, second = int_of_digits ss,
                microsecond = int_of_digits fs * 10 ^ (6 - length fs)\<rparr>"
    unfolding cnt using strptime_MS [OF assms(1-3)] by simp
  show ?thesis
    unfolding eq convert_time_stripped [OF s p]
    by (simp add: micro_fraction [OF assms(3)])
qed

lemma convert_time_S:
  assumes "number_field 60 ss" "fraction_field fs"
    and "marker = [] \<or> marker = ''M''"
  shows "convert_time (ss @ ''.'' @ fs @ marker)
         = Inr (real (int_of_digits ss) + real (int_of_digits fs) / 10 ^ length fs)"
proof -
  let ?pre = "ss @ ''.''"
  let ?body = "ss @ CHR ''.'' # fs"
  have eq: "ss @ ''.'' @ fs @ marker = ?pre @ fs @ marker" by simp
  have body: "?pre @ fs = ?body" by simp
  have cnt: "count_list ?body CHR '':'' = 0"
    using assms(1-2) by (simp add: count_list_app count_colon_digits number_field_def fraction_field_def)
  note s = strip_marker [OF assms(2,3), of ?pre, unfolded body]
  have p: "strptime ?body
           (if count_list ?body CHR '':'' = 2
            then [DirH, Lit CHR '':'', DirM, Lit CHR '':'', DirS, Lit CHR ''.'', Dirf]
            else if count_list ?body CHR '':'' = 1
            then [DirM, Lit CHR '':'', DirS, Lit CHR ''.'', Dirf]
            else [DirS, Lit CHR ''.'', Dirf])
         = Inr \<lparr>hour = 0, minute = 0, second = int_of_digits ss,
                microsecond = int_of_digits fs * 10 ^ (6 - length fs)\<rparr>"
    unfolding cnt using strptime_S [OF assms(1-2)] by simp
  show ?thesis
    unfolding eq convert_time_stripped [OF s p]
    by (simp add: micro_fraction [OF assms(2)])
qed

text \<open>
  Claim C8. \<^verbatim>\<open>convert_time\<close> maps \<^verbatim>\<open>"1:02:03.450"\<close> to 3723.45, \<^verbatim>\<open>"23.45"\<close> to
  23.45 and \<^verbatim>\<open>"02:03.45M"\<close> to 123.45. In general, for an hour field below 24, minute
  and second fields below 60 (one or two digits each) and one to six fraction digits,
  optionally followed by the marker \<^verbatim>\<open>M\<close>, the string \<^verbatim>\<open>H:M:S.f\<close> maps to
  \<open>3600 * H + 60 * M + S + f / 10 ^ length f\<close> (for three fraction digits, millis / 1000),
  \<^verbatim>\<open>M:S.f\<close> to the same without hours, and a string without colon to seconds only.
\<close>

theorem convert_time_formula:
  assumes "number_field 24 hs" "number_field 60 ms" "number_field 60 ss" "fraction_field fs"
    and "marker = [] \<or> marker = ''M''"
  shows "convert_time (hs @ '':'' @ ms @ '':'' @ ss @ ''.'' @ fs @ marker)
           = Inr (3600 * real (int_of_digits hs) + 60 * real (int_of_digits ms)
                  + real (int_of_digits ss) + real (int_of_digits fs) / 10 ^ length fs) \<and>
         convert_time (ms @ '':'' @ ss @ ''.'' @ fs @ marker)
           = Inr (60 * real (int_of_digits ms)
                  + real (int_of_digits ss) + real (int_of_digits fs) / 10 ^ length fs) \<and>
         convert_time (ss @ ''.'' @ fs @ marker)
           = Inr (real (int_of_digits ss) + real (int_of_digits fs) / 10 ^ length fs) \<and>
         convert_time ''1:02:03.450'' = Inr 3723.45 \<and>
         convert_time ''23.45'' = Inr 23.45 \<and>
         convert_time ''02:03.45M'' = Inr 123.45"
  using convert_time_HMS [OF assms] convert_time_MS [OF assms(2-5)] convert_time_S [OF assms(3-5)]
    convert_hours_minutes_seconds convert_seconds_only convert_with_marker
  by simp

theorem convert_time_formula_witness:
  "number_field 24 ''1'' \<and> number_field 60 ''02'' \<and> number_field 60 ''03'' \<and>
   fraction_field ''450'' \<and>
   convert_time ''1:02:03.450M'' = Inr (3600 * 1 + 60 * 2 + 3 + 450 / 10 ^ 3) \<and>
   convert_time ''02:03.450M'' = Inr (60 * 2 + 3 + 450 / 10 ^ 3) \<and>
   convert_time ''03.450M'' = Inr (3 + 450 / 10 ^ 3)"
proof -
  have h: "number_field 24 ''1''" "number_field 60 ''02''" "number_field 60 ''03''"
    "fraction_field ''450''" "''M'' = [] \<or> ''M'' = ''M''"
    by (simp_all add: number_field_def fraction_field_def is_digit_def between_def
        int_of_digits_def digit_value_def)
  have v: "int_of_digits ''1'' = 1" "int_of_digits ''02'' = 2" "int_of_digits ''03'' = 3"
    "int_of_digits ''450'' = 450"
    by (simp_all add: int_of_digits_def digit_value_def)
  from convert_time_formula [OF h] show ?thesis
    using h(1-4) by (simp add: v)
qed

section \<open>Properties of the listings\<close>

subsection \<open>The rows of the fixture pages and of any page\<close>

lemmas page_defs =
  find_def find_all_def find_on_def find_all_on_def get_text_on_def getitem_on_def then_do_def
  get_text_def strip_def is_space_def first_query_value_def query_def parse_qsl_def
  unquote_plus_def int_of_string_def int_of_digits_def digit_value_def is_digit_def between_def

lemma complete_row_value:
  "personal_best_row best_row_complete
   = Inr [(''result_id'', PyInt 123), (''event_name'', PyStr ''50m Freestyle''),
          (''course_length'', PyStr ''25m''), (''time'', PyFloat 23.45),
          (''FINA Points'', PyStr ''650'')]"
  by (simp add: personal_best_row_def page_defs convert_seconds_only)

lemma row_without_event_raises:
  "personal_best_row best_row_without_event = Inl AttributeError"
  by (simp add: personal_best_row_def page_defs)

lemma find_is_tag:
  assumes "find t name classes = Some x"
  shows "\<exists>cs as ks. x = Tag name cs as ks"
proof -
  from assms have "x \<in> set (find_all t name classes)"
    by (auto simp: find_def split: list.splits)
  then have "matches name classes x" by (simp add: find_all_def)
  then show ?thesis by (cases x) auto
qed

lemma getitem_tag_error:
  "find t name classes = Some x \<Longrightarrow> getitem x key = Inl e \<Longrightarrow> e = KeyError"
  by (auto dest!: find_is_tag split: option.splits)

lemma search_row_errors:
  assumes "search_row row = Inl e"
  shows "e = KeyError \<or> e = ValueError"
  using assms
  by (auto simp: search_row_def then_do_def Let_def first_query_value_def int_of_string_def
      split: option.splits sum.splits if_splits dest: getitem_tag_error)



lemma search_rows_skip:
  "search_rows rows
   = Inr (List.map_filter
            (\<lambda>row. case search_row row of Inr (Some r) \<Rightarrow> Some r | _ \<Rightarrow> None) rows)"
proof (induction rows)
  case Nil
  then show ?case by (simp add: List.map_filter_simps)
next
  case (Cons row rows)
  show ?case
  proof (cases "search_row row")
    case (Inl e)
    with search_row_errors [OF Inl] Cons show ?thesis
      by (auto simp: List.map_filter_simps)
  next
    case (Inr v)
    with Cons show ?thesis
      by (cases v) (simp_all add: List.map_filter_simps then_do_def)
  qed
qed


subsection \<open>Pages without the expected table\<close>

text \<open>
  \<^verbatim>\<open>search_athletes\<close> tests the table before it iterates and returns the empty list.
\<close>

lemma athletes_of_page_without_table:
  "find soup ''table'' [''athleteSearch''] = None \<Longrightarrow> athletes_of_page (Some soup) = Inr []"
  by (simp add: athletes_of_page_def find_on_def)

text \<open>
  The other listings only guard the lookup itself: when the page is there and the table is
  not, \<^verbatim>\<open>table\<close> is \<^verbatim>\<open>None\<close> and \<^verbatim>\<open>table.find_all\<close>, outside the \<^verbatim>\<open>try\<close>,
  raises.
\<close>

lemma personal_bests_of_page_without_table:
  "find soup ''table'' [''athleteBest''] = None \<Longrightarrow>
     personal_bests_of_page (Some soup) = Inl AttributeError"
  by (simp add: personal_bests_of_page_def find_on_def find_all_on_def then_do_def)

lemma clubs_of_page_without_table:
  "find soup ''table'' [''meetSearch''] = None \<Longrightarrow> clubs_of_page (Some soup) = Inl AttributeError"
  by (simp add: clubs_of_page_def find_on_def find_all_on_def then_do_def)

lemma listings_without_page:
  "personal_bests_of_page None = Inr []" "clubs_of_page None = Inr []"
  "athletes_of_page None = Inr []"
  by (simp_all add: personal_bests_of_page_def clubs_of_page_def athletes_of_page_def find_on_def)

lemma page_with_body_has_no_table [simp]: "find page_with_body ''table'' classes = None"
  by (simp add: find_def find_all_def)

lemma fresh_fetch_of_page_with_body:
  "get_page_content \<lparr>answer = Reply 200 page_with_body, latency = 1\<rparr> params
     (ScraperMixin_init 60, default_manager, \<lparr>clock = 0, sent = []\<rparr>)
   = Inr (Some page_with_body,
          (\<lparr>last_request = Some params, page_content = Some page_with_body,
            update_interval = 60, last_updated = Some 1\<rparr>,
           default_manager\<lparr>request_history := [1]\<rparr>, \<lparr>clock = 1, sent = [params]\<rparr>))"
  by (simp add: get_page_content_def update_page_content_def update_try_block_def
      ScraperMixin_init_def raise_for_status_def add_request_def)

text \<open>
  Claim C1 fails on the code. A page that was fetched and parsed, with a body and without
  the \<^verbatim>\<open>athleteBest\<close> table: \<^verbatim>\<open>list_personal_bests\<close> raises \<^verbatim>\<open>AttributeError\<close>
  to its caller; so does \<^verbatim>\<open>Meet.list_clubs\<close> without its \<^verbatim>\<open>meetSearch\<close> table.
\<close>

theorem listing_without_table_raises:
  "list_personal_bests \<lparr>answer = Reply 200 page_with_body, latency = 1\<rparr>
     (PyStr ''4292888'') (PyStr ''-1'')
     (ScraperMixin_init 60, default_manager, \<lparr>clock = 0, sent = []\<rparr>) = Inl AttributeError \<and>
   list_clubs \<lparr>answer = Reply 200 page_with_body, latency = 1\<rparr> (PyStr ''123456'')
     (ScraperMixin_init 60, default_manager, \<lparr>clock = 0, sent = []\<rparr>) = Inl AttributeError"
  by (simp add: list_personal_bests_def list_clubs_def fresh_fetch_of_page_with_body
      personal_bests_of_page_without_table clubs_of_page_without_table then_do_def)

subsection \<open>Rows with a missing cell\<close>

text \<open>
  \<^verbatim>\<open>search_athletes\<close> wraps each row in \<^verbatim>\<open>try\<close>: a row that cannot be parsed is
  skipped and the others are returned in page order.
\<close>

lemma athletes_of_page_skips_rows:
  "find soup ''table'' [''athleteSearch''] = Some table \<Longrightarrow>
   athletes_of_page (Some soup)
   = Inr (List.map_filter
            (\<lambda>row. case search_row row of Inr (Some r) \<Rightarrow> Some r | _ \<Rightarrow> None)
            (find_all table ''tr'' [''athleteSearch0'', ''athleteSearch1'']))"
  by (simp add: athletes_of_page_def find_on_def search_rows_skip)

text \<open>
  Claim C2 fails on the code. \<^verbatim>\<open>list_personal_bests\<close> has no \<^verbatim>\<open>try\<close> around a
  row: on a page whose first row lacks its event cell and whose second row is complete,
  the \<^verbatim>\<open>AttributeError\<close> of the first row ends the call, and the record of the second
  row (the result when that row stands alone) is not returned.
\<close>

theorem incomplete_row_aborts_personal_bests:
  "personal_bests_of_page (Some (bests_page [best_row_complete]))
   = Inr [[(''result_id'', PyInt 123), (''event_name'', PyStr ''50m Freestyle''),
           (''course_length'', PyStr ''25m''), (''time'', PyFloat 23.45),
           (''FINA Points'', PyStr ''650'')]] \<and>
   personal_bests_of_page (Some (bests_page [best_row_without_event, best_row_complete]))
   = Inl AttributeError"
proof -
  have t: "find (bests_page rows) ''table'' [''athleteBest'']
           = Some (Tag ''table'' [''athleteBest''] [] rows)" for rows
    by (simp add: find_def find_all_def)
  have r1: "find_all (Tag ''table'' [''athleteBest''] [] [best_row_complete]) ''tr''
              [''athleteBest0'', ''athleteBest1''] = [best_row_complete]"
    by (simp add: find_all_def)
  have r2: "find_all (Tag ''table'' [''athleteBest''] [] [best_row_without_event, best_row_complete])
              ''tr'' [''athleteBest0'', ''athleteBest1'']
            = [best_row_without_event, best_row_complete]"
    by (simp add: find_all_def)
  show ?thesis
    by (simp add: personal_bests_of_page_def find_on_def find_all_on_def t r1 r2 then_do_def
        complete_row_value row_without_event_raises)
qed

subsection \<open>Optional cells of an athlete-search row\<close>




end
